theory Spec2Isabelle
  imports Main "HOL-Library.Word"
begin

section \<open>IP configuration state filter (package filter)\<close>

text \<open>
  \<^verbatim>\<open>cns.IPConfigState\<close> is a Go string type and \<^verbatim>\<open>cns.IPConfigurationStatus\<close> a struct;
  both are declared in package \<^verbatim>\<open>cns\<close>. The filter reads only the \<^verbatim>\<open>State\<close> field, the
  tests also set \<^verbatim>\<open>ID\<close>.
\<close>

type_synonym IPConfigState = string

record IPConfigurationStatus =
  ID :: string
  State :: IPConfigState

text \<open>
  Modelled from the spec: the four constants \<^verbatim>\<open>cns.Allocated\<close>, \<^verbatim>\<open>cns.Available\<close>,
  \<^verbatim>\<open>cns.PendingProgramming\<close>, \<^verbatim>\<open>cns.PendingRelease\<close> of package \<^verbatim>\<open>cns\<close> (the spec lists
  exactly these four states). They are the four pairwise different keys of the Go map
  literal \<^verbatim>\<open>filters\<close>.
\<close>

definition Allocated :: IPConfigState where
  "Allocated = ''Allocated''"

definition Available :: IPConfigState where
  "Available = ''Available''"

definition PendingProgramming :: IPConfigState where
  "PendingProgramming = ''PendingProgramming''"

definition PendingRelease :: IPConfigState where
  "PendingRelease = ''PendingRelease''"

type_synonym IPConfigStatePredicate = "IPConfigurationStatus \<Rightarrow> bool"

text \<open>\<^verbatim>\<open>ipConfigStatePredicate(test)\<close>: the closure comparing \<^verbatim>\<open>ipconfig.State\<close> with \<^verbatim>\<open>test\<close>.\<close>

definition ipConfigStatePredicate :: "IPConfigState \<Rightarrow> IPConfigStatePredicate" where
  "ipConfigStatePredicate test = (\<lambda>ipconfig. State ipconfig = test)"


text \<open>\<^verbatim>\<open>matchesAnyIPConfigState\<close>: the loop returns at the first predicate that holds.\<close>

fun matchesAnyIPConfigState :: "IPConfigurationStatus \<Rightarrow> IPConfigStatePredicate list \<Rightarrow> bool" where
  "matchesAnyIPConfigState inp [] = False"
| "matchesAnyIPConfigState inp (p # predicates) =
     (if p inp then True else matchesAnyIPConfigState inp predicates)"

text \<open>
  A Go map is ranged over in an unspecified order. The argument \<^verbatim>\<open>in\<close> is given as the
  list of its key/value pairs in the order in which this run of \<^verbatim>\<open>range\<close> visits them;
  the keys of a Go map are distinct. \<open>matchLoop\<close> is the body of the \<^verbatim>\<open>for _, v := range in\<close>
  loop, appending to \<^verbatim>\<open>out\<close>.
\<close>

fun matchLoop ::
  "IPConfigurationStatus list \<Rightarrow> (string \<times> IPConfigurationStatus) list \<Rightarrow>
   IPConfigStatePredicate list \<Rightarrow> IPConfigurationStatus list" where
  "matchLoop out [] predicates = out"
| "matchLoop out ((k, v) # rest) predicates =
     (if matchesAnyIPConfigState v predicates
      then matchLoop (out @ [v]) rest predicates
      else matchLoop out rest predicates)"

definition MatchAnyIPConfigState ::
  "(string \<times> IPConfigurationStatus) list \<Rightarrow> IPConfigStatePredicate list \<Rightarrow>
   IPConfigurationStatus list" where
  "MatchAnyIPConfigState inp predicates =
     (let out = [] in
      if length predicates = 0 \<or> length inp = 0 then out
      else matchLoop out inp predicates)"



section \<open>CNI state to pod info (package cni)\<close>

text \<open>
  \<^verbatim>\<open>net.IPNet\<close> is \<^verbatim>\<open>{IP, Mask}\<close>, both byte slices. \<^verbatim>\<open>api.PodNetworkInterfaceInfo\<close> and
  \<^verbatim>\<open>api.State\<close> are the structs of \<^verbatim>\<open>cni/api/api.go\<close>; the fields \<^verbatim>\<open>PodName\<close> and
  \<^verbatim>\<open>PodNamespace\<close> of the interface info carry the prefix \<open>ep_\<close> here, since
  \<^verbatim>\<open>cns.KubernetesPodInfo\<close> below has fields of the same names. The Go map
  \<^verbatim>\<open>ContainerInterfaces\<close> is the list of its pairs in iteration order.
\<close>

type_synonym IP = "8 word list"

record IPNet =
  IP :: IP
  Mask :: "8 word list"

record PodNetworkInterfaceInfo =
  ep_PodName :: string
  ep_PodNamespace :: string
  PodEndpointId :: string
  ContainerID :: string
  IPAddresses :: "IPNet list"

record api_State =
  ContainerInterfaces :: "(string \<times> PodNetworkInterfaceInfo) list"

text \<open>A Go run-time panic ends the function; it is the left summand of the result.\<close>

datatype panic = NilPointerDereference | IndexOutOfRange

text \<open>
  \<^verbatim>\<open>cniStateToPodInfoByIP\<close>. \<^verbatim>\<open>net.IP.String\<close> (standard library) and \<^verbatim>\<open>cns.NewPodInfo\<close>
  (package \<^verbatim>\<open>cns\<close>) are parameters, \<open>IP_String\<close> and \<open>NewPodInfo\<close>. The loop body reads
  \<^verbatim>\<open>endpoint.IPAddresses[0]\<close> with no length check. \<^verbatim>\<open>state\<close> is a pointer: \<open>None\<close> is nil.
\<close>

fun cniLoop ::
  "(IP \<Rightarrow> string) \<Rightarrow> (string \<Rightarrow> string \<Rightarrow> string \<Rightarrow> string \<Rightarrow> 'pi) \<Rightarrow> (string \<rightharpoonup> 'pi) \<Rightarrow>
   (string \<times> PodNetworkInterfaceInfo) list \<Rightarrow> panic + (string \<rightharpoonup> 'pi)" where
  "cniLoop IP_String NewPodInfo podInfoByIP [] = Inr podInfoByIP"
| "cniLoop IP_String NewPodInfo podInfoByIP ((k, endpoint) # rest) =
     (case IPAddresses endpoint of
        [] \<Rightarrow> Inl IndexOutOfRange
      | a # _ \<Rightarrow>
          cniLoop IP_String NewPodInfo
            (podInfoByIP(IP_String (IP a) \<mapsto>
               NewPodInfo '''' (PodEndpointId endpoint) (ep_PodName endpoint)
                 (ep_PodNamespace endpoint)))
            rest)"

definition cniStateToPodInfoByIP ::
  "(IP \<Rightarrow> string) \<Rightarrow> (string \<Rightarrow> string \<Rightarrow> string \<Rightarrow> string \<Rightarrow> 'pi) \<Rightarrow> api_State option \<Rightarrow>
   panic + (string \<rightharpoonup> 'pi)" where
  "cniStateToPodInfoByIP IP_String NewPodInfo state =
     (case state of
        None \<Rightarrow> Inl NilPointerDereference
      | Some st \<Rightarrow> cniLoop IP_String NewPodInfo Map.empty (ContainerInterfaces st))"

section \<open>API errors and their classification\<close>

text \<open>
  The Go \<^verbatim>\<open>error\<close> values the controllers inspect. A non-nil error either has the dynamic
  type \<^verbatim>\<open>*apierrors.StatusError\<close> or some other type; \<open>None\<close> is the nil error. Of
  \<^verbatim>\<open>metav1.Status\<close> (k8s.io/apimachinery) the code reads \<^verbatim>\<open>Details.Causes[i].Type\<close>;
  \<^verbatim>\<open>Reason\<close> is what the library's not-found test reads. \<^verbatim>\<open>Details\<close> is a pointer there
  (\<^verbatim>\<open>*metav1.StatusDetails\<close>): \<open>None\<close> is nil.
\<close>

record StatusCause =
  cause_Type :: string
  cause_Message :: string

record StatusDetails =
  Causes :: "StatusCause list"

record metav1_Status =
  Reason :: string
  Details :: "StatusDetails option"

datatype error = StatusError metav1_Status | OtherError string

definition CauseTypeUnexpectedServerResponse :: string where
  "CauseTypeUnexpectedServerResponse = ''UnexpectedServerResponse''"

definition StatusReasonNotFound :: string where
  "StatusReasonNotFound = ''NotFound''"

text \<open>
  \<^verbatim>\<open>apierrors.IsNotFound\<close> belongs to k8s.io/apimachinery, not to this repository: the
  functions below take it as the parameter \<open>IsNotFound\<close>. \<^verbatim>\<open>client.IgnoreNotFound\<close>
  (controller-runtime) returns nil for an error that \<open>IsNotFound\<close> accepts and the error
  itself otherwise. \<open>apierrors_IsNotFound\<close> is the library's predicate, used for concrete
  errors: the reason of a status error is \<^verbatim>\<open>StatusReasonNotFound\<close>; any other error has the
  reason unknown.
\<close>

definition IgnoreNotFound :: "(error option \<Rightarrow> bool) \<Rightarrow> error option \<Rightarrow> error option" where
  "IgnoreNotFound IsNotFound err = (if IsNotFound err then None else err)"

fun apierrors_IsNotFound :: "error option \<Rightarrow> bool" where
  "apierrors_IsNotFound None = False"
| "apierrors_IsNotFound (Some (StatusError s)) = (Reason s = StatusReasonNotFound)"
| "apierrors_IsNotFound (Some (OtherError m)) = False"

text \<open>
  \<^verbatim>\<open>isNotDefined\<close>, the same body in \<^verbatim>\<open>multiTenantController\<close> and in
  \<^verbatim>\<open>requestController\<close>. \<open>causesLoop\<close> is the \<^verbatim>\<open>for _, cause = range ...Causes\<close> loop with
  the variable \<^verbatim>\<open>notDefined\<close>; \<^verbatim>\<open>break\<close> leaves it with \<^verbatim>\<open>notDefined = true\<close>. Reading
  \<^verbatim>\<open>Details.Causes\<close> through a nil \<^verbatim>\<open>Details\<close> panics.
\<close>

fun causesLoop ::
  "(error option \<Rightarrow> bool) \<Rightarrow> error option \<Rightarrow> bool \<Rightarrow> StatusCause list \<Rightarrow> bool" where
  "causesLoop IsNotFound err notDefined [] = notDefined"
| "causesLoop IsNotFound err notDefined (cause # causes) =
     (if cause_Type cause = CauseTypeUnexpectedServerResponse
      then (if IsNotFound err then True else causesLoop IsNotFound err notDefined causes)
      else causesLoop IsNotFound err notDefined causes)"

definition isNotDefined :: "(error option \<Rightarrow> bool) \<Rightarrow> error option \<Rightarrow> panic + bool" where
  "isNotDefined IsNotFound err =
     (case err of
        None \<Rightarrow> Inr False
      | Some (OtherError m) \<Rightarrow> Inr False
      | Some (StatusError statusError) \<Rightarrow>
          (case Details statusError of
             None \<Rightarrow> Inl NilPointerDereference
           | Some details \<Rightarrow>
               if length (Causes details) > 0
               then Inr (causesLoop IsNotFound err False (Causes details))
               else Inr False))"

section \<open>The request controller (package kubecontroller)\<close>

text \<open>
  The custom resource. Its \<^verbatim>\<open>Spec\<close>, the \<^verbatim>\<open>Scaler\<close> and the network containers of its
  \<^verbatim>\<open>Status\<close> are declared in package \<^verbatim>\<open>nodenetworkconfig\<close>; the controller only passes
  them on, so they are type parameters \<open>'sp\<close>, \<open>'sc\<close>, \<open>'nc\<close>. \<open>'req\<close> is
  \<^verbatim>\<open>cns.CreateNetworkContainerRequest\<close>.
\<close>

record ('sc, 'nc) NodeNetworkConfigStatus =
  Scaler :: 'sc
  NetworkContainers :: "'nc list"

record ('sp, 'sc, 'nc) NodeNetworkConfig =
  Spec :: 'sp
  Status :: "('sc, 'nc) NodeNetworkConfigStatus"

text \<open>
  Of \<^verbatim>\<open>corev1.Pod\<close> the code reads \<^verbatim>\<open>Name\<close>, \<^verbatim>\<open>Namespace\<close>, \<^verbatim>\<open>Spec.HostNetwork\<close> and
  \<^verbatim>\<open>Status.PodIP\<close>.
\<close>

record Pod =
  pod_Name :: string
  pod_Namespace :: string
  HostNetwork :: bool
  PodIP :: string

record PodList =
  Items :: "Pod list"

record KubernetesPodInfo =
  PodName :: string
  PodNamespace :: string

definition k8sNamespace :: string where
  "k8sNamespace = ''kube-system''"

definition crdTypeName :: string where
  "crdTypeName = ''nodenetworkconfigs''"

definition allNamespaces :: string where
  "allNamespaces = ''''"

text \<open>
  The calls the controller makes on its collaborators, and the points where it releases
  its lock, in program order. \<open>EvUnlock b\<close>: the lock is released while the field
  \<^verbatim>\<open>Started\<close> holds \<open>b\<close>, so from here on a concurrent \<^verbatim>\<open>IsStarted()\<close> returns \<open>b\<close>.
  \<open>EvMgrStart\<close>: \<^verbatim>\<open>mgr.Start\<close> is called, the watch manager's run loop begins.
  Calls of the logger are left out.
\<close>

datatype ('sp, 'sc, 'nc, 'req) event =
    EvCRDGet string string string
  | EvTranslate "('sc, 'nc) NodeNetworkConfigStatus"
  | EvListPods string string
  | EvReconcile "'req option" "(string \<rightharpoonup> KubernetesPodInfo) option" 'sc 'sp
  | EvUnlock bool
  | EvMgrStart

text \<open>
  What the collaborators answer in one run: the direct CRD client, the direct API client,
  the translator \<^verbatim>\<open>CRDStatusToNCRequest\<close> (same package, not part of the controller file),
  the CNS client and the manager. \<^verbatim>\<open>mgr.Start\<close> blocks until its context is done:
  \<open>mgr_Start\<close> is \<open>None\<close> when that never happens and the value returned otherwise. A Go
  call returning a pointer and an error is a pair of options.
\<close>

record ('sp, 'sc, 'nc, 'req) collaborators =
  directCRDClient_Get ::
    "string \<Rightarrow> string \<Rightarrow> string \<Rightarrow> ('sp, 'sc, 'nc) NodeNetworkConfig option \<times> error option"
  directAPIClient_ListPods :: "string \<Rightarrow> string \<Rightarrow> PodList option \<times> error option"
  CRDStatusToNCRequest :: "('sc, 'nc) NodeNetworkConfigStatus \<Rightarrow> 'req \<times> error option"
  CNSClient_ReconcileNCState ::
    "'req option \<Rightarrow> (string \<rightharpoonup> KubernetesPodInfo) option \<Rightarrow> 'sc \<Rightarrow> 'sp \<Rightarrow> error option"
  mgr_Start :: "error option option"

record requestController =
  nodeName :: string
  initialized :: bool
  Started :: bool

text \<open>
  How a call ends: it returns, the process exits (\<^verbatim>\<open>os.Exit\<close>), it panics, or it does
  not end because it waits in a call that does not return.
\<close>

datatype 'a outcome = Return 'a | Exit int | Panic panic | Blocked

definition getNodeNetConfigDirect ::
  "('sp, 'sc, 'nc, 'req) collaborators \<Rightarrow> string \<Rightarrow> string \<Rightarrow>
   ('sp, 'sc, 'nc, 'req) event list \<times> (('sp, 'sc, 'nc) NodeNetworkConfig option \<times> error option)" where
  "getNodeNetConfigDirect c name namespace =
     (case directCRDClient_Get c name namespace crdTypeName of
        (nodeNetworkConfig, Some err) \<Rightarrow> ([EvCRDGet name namespace crdTypeName], (None, Some err))
      | (nodeNetworkConfig, None) \<Rightarrow>
          ([EvCRDGet name namespace crdTypeName], (nodeNetworkConfig, None)))"

definition getAllPods ::
  "('sp, 'sc, 'nc, 'req) collaborators \<Rightarrow> string \<Rightarrow>
   ('sp, 'sc, 'nc, 'req) event list \<times> (PodList option \<times> error option)" where
  "getAllPods c node =
     (case directAPIClient_ListPods c allNamespaces node of
        (pods, Some err) \<Rightarrow> ([EvListPods allNamespaces node], (None, Some err))
      | (pods, None) \<Rightarrow> ([EvListPods allNamespaces node], (pods, None)))"

text \<open>
  Lines 421 to 434 of \<^verbatim>\<open>initCNS\<close>: \<open>podLoop\<close> is the loop over \<^verbatim>\<open>pods.Items\<close>;
  \<^verbatim>\<open>podInfoByIP\<close> stays nil (\<open>None\<close>) when the list is empty.
\<close>

fun podLoop :: "(string \<rightharpoonup> KubernetesPodInfo) \<Rightarrow> Pod list \<Rightarrow> (string \<rightharpoonup> KubernetesPodInfo)" where
  "podLoop podInfoByIP [] = podInfoByIP"
| "podLoop podInfoByIP (pod # pods) =
     (if \<not> HostNetwork pod
      then podLoop
             (podInfoByIP(PodIP pod \<mapsto> \<lparr>PodName = pod_Name pod, PodNamespace = pod_Namespace pod\<rparr>))
             pods
      else podLoop podInfoByIP pods)"

definition podInfoByIPOf :: "Pod list \<Rightarrow> (string \<rightharpoonup> KubernetesPodInfo) option" where
  "podInfoByIPOf items =
     (if length items \<noteq> 0 then Some (podLoop Map.empty items) else None)"

text \<open>Reading a Go map that is nil finds no key.\<close>

definition mapEntries :: "(string \<rightharpoonup> 'v) option \<Rightarrow> (string \<rightharpoonup> 'v)" where
  "mapEntries m = (case m of None \<Rightarrow> Map.empty | Some f \<Rightarrow> f)"

definition initCNS ::
  "(error option \<Rightarrow> bool) \<Rightarrow> ('sp, 'sc, 'nc, 'req) collaborators \<Rightarrow> requestController \<Rightarrow>
   ('sp, 'sc, 'nc, 'req) event list \<times> error option outcome" where
  "initCNS IsNotFound c rc =
     (case getNodeNetConfigDirect c (nodeName rc) k8sNamespace of
        (t1, (nodeNetConfig, Some err)) \<Rightarrow>
          (case isNotDefined IsNotFound (Some err) of
             Inl p \<Rightarrow> (t1, Panic p)
           | Inr True \<Rightarrow> (t1, Exit 1)
           | Inr False \<Rightarrow>
               (case nodeNetConfig of
                  None \<Rightarrow> (t1, Return None)
                | Some n \<Rightarrow>
                    if IgnoreNotFound IsNotFound (Some err) = None
                    then (t1 @ [EvReconcile None None (Scaler (Status n)) (Spec n)],
                          Return (CNSClient_ReconcileNCState c None None (Scaler (Status n)) (Spec n)))
                    else (t1, Return (Some err))))
      | (t1, (nodeNetConfig, None)) \<Rightarrow>
          (case nodeNetConfig of
             None \<Rightarrow> (t1, Panic NilPointerDereference)
           | Some n \<Rightarrow>
               if length (NetworkContainers (Status n)) = 0
               then (t1 @ [EvReconcile None None (Scaler (Status n)) (Spec n)],
                     Return (CNSClient_ReconcileNCState c None None (Scaler (Status n)) (Spec n)))
               else
                 (case CRDStatusToNCRequest c (Status n) of
                    (ncRequest, Some err) \<Rightarrow> (t1 @ [EvTranslate (Status n)], Return (Some err))
                  | (ncRequest, None) \<Rightarrow>
                      (case getAllPods c (nodeName rc) of
                         (t2, (pods, Some err)) \<Rightarrow>
                           (t1 @ [EvTranslate (Status n)] @ t2, Return (Some err))
                       | (t2, (None, None)) \<Rightarrow>
                           (t1 @ [EvTranslate (Status n)] @ t2, Panic NilPointerDereference)
                       | (t2, (Some ps, None)) \<Rightarrow>
                           (t1 @ [EvTranslate (Status n)] @ t2 @
                              [EvReconcile (Some ncRequest) (podInfoByIPOf (Items ps))
                                 (Scaler (Status n)) (Spec n)],
                            Return (CNSClient_ReconcileNCState c (Some ncRequest)
                                      (podInfoByIPOf (Items ps)) (Scaler (Status n)) (Spec n)))))))"

text \<open>
  \<^verbatim>\<open>InitRequestController\<close> holds the lock for the whole call; the deferred unlock runs
  on return and on panic, not on \<^verbatim>\<open>os.Exit\<close>. The result is the trace, the outcome and the
  controller afterwards.
\<close>

definition InitRequestController ::
  "(error option \<Rightarrow> bool) \<Rightarrow> ('sp, 'sc, 'nc, 'req) collaborators \<Rightarrow> requestController \<Rightarrow>
   ('sp, 'sc, 'nc, 'req) event list \<times> error option outcome \<times> requestController" where
  "InitRequestController IsNotFound c rc =
     (case initCNS IsNotFound c rc of
        (t, Return (Some err)) \<Rightarrow> (t @ [EvUnlock (Started rc)], Return (Some err), rc)
      | (t, Return None) \<Rightarrow>
          (t @ [EvUnlock (Started rc)], Return None, rc\<lparr>initialized := True\<rparr>)
      | (t, Exit n) \<Rightarrow> (t, Exit n, rc)
      | (t, Panic p) \<Rightarrow> (t @ [EvUnlock (Started rc)], Panic p, rc)
      | (t, Blocked) \<Rightarrow> (t, Blocked, rc))"

definition notInitializedError :: error where
  "notInitializedError =
     OtherError ''Failed to start requestController, state is not initialized''"

text \<open>
  \<^verbatim>\<open>StartRequestController\<close>: the check of \<^verbatim>\<open>initialized\<close> and the assignment to
  \<^verbatim>\<open>Started\<close> happen under the lock, which is released before \<^verbatim>\<open>mgr.Start\<close> is called.
\<close>

definition StartRequestController ::
  "(error option \<Rightarrow> bool) \<Rightarrow> ('sp, 'sc, 'nc, 'req) collaborators \<Rightarrow> requestController \<Rightarrow>
   ('sp, 'sc, 'nc, 'req) event list \<times> error option outcome \<times> requestController" where
  "StartRequestController IsNotFound c rc =
     (if \<not> initialized rc
      then ([EvUnlock (Started rc)], Return (Some notInitializedError), rc)
      else
        (let rc' = rc\<lparr>Started := True\<rparr>;
             t = [EvUnlock (Started rc'), EvMgrStart]
         in case mgr_Start c of
              None \<Rightarrow> (t, Blocked, rc')
            | Some (Some err) \<Rightarrow>
                (case isNotDefined IsNotFound (Some err) of
                   Inl p \<Rightarrow> (t, Panic p, rc')
                 | Inr True \<Rightarrow> (t, Exit 1, rc')
                 | Inr False \<Rightarrow> (t, Return (Some err), rc'))
            | Some None \<Rightarrow> (t, Return None, rc')))"

definition IsStarted :: "requestController \<Rightarrow> bool" where
  "IsStarted rc = Started rc"

section \<open>The multi-tenant controller (package multitenantoperator)\<close>

record multiTenantController =
  mtc_nodeName :: string
  mtc_Started :: bool

definition StartMultiTenantController ::
  "(error option \<Rightarrow> bool) \<Rightarrow> ('sp, 'sc, 'nc, 'req) collaborators \<Rightarrow> multiTenantController \<Rightarrow>
   ('sp, 'sc, 'nc, 'req) event list \<times> error option outcome \<times> multiTenantController" where
  "StartMultiTenantController IsNotFound c mtc =
     (let mtc' = mtc\<lparr>mtc_Started := True\<rparr>;
          t = [EvUnlock (mtc_Started mtc'), EvMgrStart]
      in case mgr_Start c of
           None \<Rightarrow> (t, Blocked, mtc')
         | Some (Some err) \<Rightarrow>
             (case isNotDefined IsNotFound (Some err) of
                Inl p \<Rightarrow> (t, Panic p, mtc')
              | Inr True \<Rightarrow> (t, Exit 1, mtc')
              | Inr False \<Rightarrow> (t, Return (Some err), mtc'))
         | Some None \<Rightarrow> (t, Return None, mtc'))"

section \<open>Properties of event traces\<close>

text \<open>
  \<open>reconcileCalls\<close>: the calls of \<^verbatim>\<open>ReconcileNCState\<close> in a trace.
\<close>

fun isReconcile :: "('sp, 'sc, 'nc, 'req) event \<Rightarrow> bool" where
  "isReconcile (EvReconcile r m sc sp) = True"
| "isReconcile e = False"

definition reconcileCalls ::
  "('sp, 'sc, 'nc, 'req) event list \<Rightarrow> ('sp, 'sc, 'nc, 'req) event list" where
  "reconcileCalls t = filter isReconcile t"

text \<open>
  \<open>startedOnlyWhileRunning running t\<close>: at no point of the trace \<open>t\<close> is the lock released
  with \<^verbatim>\<open>Started\<close> true while the manager has not been started; \<open>running\<close> says
  whether \<^verbatim>\<open>mgr.Start\<close> was called before \<open>t\<close>.
\<close>

fun startedOnlyWhileRunning :: "bool \<Rightarrow> ('sp, 'sc, 'nc, 'req) event list \<Rightarrow> bool" where
  "startedOnlyWhileRunning running [] = True"
| "startedOnlyWhileRunning running (EvUnlock started # t) =
     ((if started then running else True) \<and> startedOnlyWhileRunning running t)"
| "startedOnlyWhileRunning running (EvMgrStart # t) = startedOnlyWhileRunning True t"
| "startedOnlyWhileRunning running (e # t) = startedOnlyWhileRunning running t"

text \<open>
  \<open>runOnlyWhenStarted started t\<close>: whenever \<^verbatim>\<open>mgr.Start\<close> is called in \<open>t\<close>, the value of
  \<^verbatim>\<open>Started\<close> published by the last release of the lock is true; \<open>started\<close> is the value
  before \<open>t\<close>.
\<close>

fun runOnlyWhenStarted :: "bool \<Rightarrow> ('sp, 'sc, 'nc, 'req) event list \<Rightarrow> bool" where
  "runOnlyWhenStarted started [] = True"
| "runOnlyWhenStarted started (EvUnlock b # t) = runOnlyWhenStarted b t"
| "runOnlyWhenStarted started (EvMgrStart # t) = (started \<and> runOnlyWhenStarted started t)"
| "runOnlyWhenStarted started (e # t) = runOnlyWhenStarted started t"

section \<open>Concrete inputs\<close>

text \<open>The map of \<^verbatim>\<open>TestMatchAnyIPConfigState\<close> (\<^verbatim>\<open>ipam_test.go\<close>): keys \<^verbatim>\<open>"0"\<close> to \<^verbatim>\<open>"3"\<close>.\<close>

definition testStatuses :: "IPConfigurationStatus list" where
  "testStatuses =
     [\<lparr>ID = ''allocated'', State = Allocated\<rparr>,
      \<lparr>ID = ''available'', State = Available\<rparr>,
      \<lparr>ID = ''pending-programming'', State = PendingProgramming\<rparr>,
      \<lparr>ID = ''pending-release'', State = PendingRelease\<rparr>]"

definition testMap :: "(string \<times> IPConfigurationStatus) list" where
  "testMap = zip [''0'', ''1'', ''2'', ''3''] testStatuses"

text \<open>A host-network pod at 10.0.0.5 and a pod with its own address 10.244.1.2.\<close>

definition examplePods :: "Pod list" where
  "examplePods =
     [\<lparr>pod_Name = ''kube-proxy'', pod_Namespace = ''kube-system'', HostNetwork = True,
        PodIP = ''10.0.0.5''\<rparr>,
      \<lparr>pod_Name = ''web'', pod_Namespace = ''default'', HostNetwork = False,
        PodIP = ''10.244.1.2''\<rparr>]"

text \<open>
  Errors of the API server: \<open>notFoundError\<close> is what \<^verbatim>\<open>apierrors.NewNotFound\<close> builds (reason
  not found, details without causes); \<open>notDefinedError\<close> is the answer for a resource kind
  the server does not serve; \<open>refusedError\<close> is a transport error.
\<close>

definition notFoundError :: error where
  "notFoundError = StatusError \<lparr>Reason = StatusReasonNotFound, Details = Some \<lparr>Causes = []\<rparr>\<rparr>"

definition notDefinedError :: error where
  "notDefinedError =
     StatusError \<lparr>Reason = StatusReasonNotFound,
       Details = Some \<lparr>Causes =
         [\<lparr>cause_Type = CauseTypeUnexpectedServerResponse,
           cause_Message = ''404 page not found''\<rparr>]\<rparr>\<rparr>"

definition refusedError :: error where
  "refusedError = OtherError ''dial tcp: connection refused''"

text \<open>
  Collaborators for a node with one network container and the two pods above; the spec
  and the scaler are numbers, a request is the list of container names. Every call
  succeeds, and the manager runs until a clean shutdown.
\<close>

definition exampleNNC :: "(nat, nat, string) NodeNetworkConfig" where
  "exampleNNC = \<lparr>Spec = 16, Status = \<lparr>Scaler = 8, NetworkContainers = [''nc-1'']\<rparr>\<rparr>"

definition emptyNNC :: "(nat, nat, string) NodeNetworkConfig" where
  "emptyNNC = \<lparr>Spec = 16, Status = \<lparr>Scaler = 8, NetworkContainers = []\<rparr>\<rparr>"

definition exampleCollaborators :: "(nat, nat, string, string list) collaborators" where
  "exampleCollaborators =
     \<lparr>directCRDClient_Get = (\<lambda>name namespace kind. (Some exampleNNC, None)),
      directAPIClient_ListPods = (\<lambda>namespace node. (Some \<lparr>Items = examplePods\<rparr>, None)),
      CRDStatusToNCRequest = (\<lambda>status. (NetworkContainers status, None)),
      CNSClient_ReconcileNCState = (\<lambda>req pods sc sp. None),
      mgr_Start = Some None\<rparr>"

definition exampleController :: requestController where
  "exampleController = \<lparr>nodeName = ''node-1'', initialized = False, Started = False\<rparr>"

text \<open>
  A CNI state with one endpoint at 10.244.1.2, and one whose endpoint has no address.
  \<open>exampleIPString\<close> gives the values of \<^verbatim>\<open>net.IP.String\<close> on the addresses used here;
  \<open>examplePodInfo\<close> keeps the four arguments of \<^verbatim>\<open>cns.NewPodInfo\<close>.
\<close>

definition exampleIPString :: "IP \<Rightarrow> string" where
  "exampleIPString ip = (if ip = [10, 244, 1, 2] then ''10.244.1.2'' else ''<nil>'')"

definition examplePodInfo :: "string \<Rightarrow> string \<Rightarrow> string \<Rightarrow> string \<Rightarrow> string \<times> string \<times> string \<times> string" where
  "examplePodInfo infraContainerID interfaceID name namespace =
     (infraContainerID, interfaceID, name, namespace)"

definition exampleState :: api_State where
  "exampleState =
     \<lparr>ContainerInterfaces =
        [(''eth0-web'',
          \<lparr>ep_PodName = ''web'', ep_PodNamespace = ''default'', PodEndpointId = ''eth0-web'',
            ContainerID = ''c1'',
            IPAddresses = [\<lparr>IP = [10, 244, 1, 2], Mask = [255, 255, 255, 0]\<rparr>]\<rparr>)]\<rparr>"

definition noAddressState :: api_State where
  "noAddressState =
     \<lparr>ContainerInterfaces =
        [(''eth0-db'',
          \<lparr>ep_PodName = ''db'', ep_PodNamespace = ''default'', PodEndpointId = ''eth0-db'',
            ContainerID = ''c2'', IPAddresses = []\<rparr>)]\<rparr>"

text \<open>
  Two pods off the host network that have no address yet: both have the empty \<^verbatim>\<open>PodIP\<close>.
\<close>

definition pendingPods :: "Pod list" where
  "pendingPods =
     [\<lparr>pod_Name = ''job-a'', pod_Namespace = ''default'', HostNetwork = False, PodIP = ''''\<rparr>,
      \<lparr>pod_Name = ''job-b'', pod_Namespace = ''default'', HostNetwork = False, PodIP = ''''\<rparr>]"

text \<open>
  Status errors whose \<^verbatim>\<open>Details\<close> pointer is nil: a not-found status without details, and
  the status an API server sends for a request it cannot authenticate.
\<close>

definition bareNotFoundError :: error where
  "bareNotFoundError = StatusError \<lparr>Reason = StatusReasonNotFound, Details = None\<rparr>"

definition unauthorizedError :: error where
  "unauthorizedError = StatusError \<lparr>Reason = ''Unauthorized'', Details = None\<rparr>"

section \<open>Properties of the filter\<close>

lemma matchesAny_iff: "matchesAnyIPConfigState v ps \<longleftrightarrow> (\<exists>p \<in> set ps. p v)"
  by (induction ps) auto

lemma set_matchLoop:
  "set (matchLoop out kvs ps) = set out \<union> {v \<in> snd ` set kvs. \<exists>p \<in> set ps. p v}"
  by (induction out kvs ps rule: matchLoop.induct) (auto simp: matchesAny_iff)

lemma ran_map_of_distinct:
  "distinct (map fst kvs) \<Longrightarrow> ran (map_of kvs) = snd ` set kvs"
  by (force simp: ran_def image_iff)

text \<open>
  C1. For every Go map \<open>M\<close> (its pairs \<open>kvs\<close> in any iteration order, keys distinct) and every
  predicate list \<open>S\<close>, \<^verbatim>\<open>MatchAnyIPConfigState\<close> returns, as a set, exactly the values of \<open>M\<close>
  that satisfy at least one predicate of \<open>S\<close>; the result is the empty slice when \<open>S\<close> or
  \<open>M\<close> is empty. The function is total and has no error result.
\<close>

theorem MatchAnyIPConfigState_exact:
  assumes "distinct (map fst kvs)"
  shows "set (MatchAnyIPConfigState kvs S) = {v \<in> ran (map_of kvs). \<exists>p \<in> set S. p v}
         \<and> (S = [] \<or> kvs = [] \<longrightarrow> MatchAnyIPConfigState kvs S = [])"
proof -
  have r: "ran (map_of kvs) = snd ` set kvs"
    using assms by (rule ran_map_of_distinct)
  have "set (MatchAnyIPConfigState kvs S) = {v \<in> ran (map_of kvs). \<exists>p \<in> set S. p v}"
  proof (cases "S = [] \<or> kvs = []")
    case True
    then show ?thesis by (auto simp: MatchAnyIPConfigState_def r)
  next
    case False
    then show ?thesis by (simp add: MatchAnyIPConfigState_def set_matchLoop r)
  qed
  moreover have "S = [] \<or> kvs = [] \<longrightarrow> MatchAnyIPConfigState kvs S = []"
    by (auto simp: MatchAnyIPConfigState_def)
  ultimately show ?thesis by blast
qed

lemma states_distinct:
  "Allocated \<noteq> Available" "Allocated \<noteq> PendingProgramming" "Allocated \<noteq> PendingRelease"
  "Available \<noteq> PendingProgramming" "Available \<noteq> PendingRelease"
  "PendingProgramming \<noteq> PendingRelease"
  by (simp_all add: Allocated_def Available_def PendingProgramming_def PendingRelease_def)

text \<open>The test's map, filtered for the allocated state and with no predicate.\<close>

theorem MatchAnyIPConfigState_exact_witness:
  "distinct (map fst testMap)
   \<and> set (MatchAnyIPConfigState testMap [ipConfigStatePredicate Allocated])
       = {v \<in> ran (map_of testMap). \<exists>p \<in> set [ipConfigStatePredicate Allocated]. p v}
   \<and> MatchAnyIPConfigState testMap [ipConfigStatePredicate Allocated]
       = [\<lparr>ID = ''allocated'', State = Allocated\<rparr>]
   \<and> MatchAnyIPConfigState testMap [] = []"
proof -
  have d: "distinct (map fst testMap)"
    by (simp add: testMap_def testStatuses_def)
  have e: "MatchAnyIPConfigState testMap [ipConfigStatePredicate Allocated]
       = [\<lparr>ID = ''allocated'', State = Allocated\<rparr>]"
    using states_distinct
    by (simp add: MatchAnyIPConfigState_def testMap_def testStatuses_def ipConfigStatePredicate_def)
  from MatchAnyIPConfigState_exact [OF d, of "[ipConfigStatePredicate Allocated]"]
    MatchAnyIPConfigState_exact [OF d, of "[]"] d e
  show ?thesis by simp
qed





section \<open>Properties of the CNI state conversion\<close>

lemma cniLoop_panics:
  "\<exists>(k, e) \<in> set ifs. IPAddresses e = [] \<Longrightarrow> cniLoop S N m ifs = Inl IndexOutOfRange"
  by (induction S N m ifs rule: cniLoop.induct) (auto split: list.splits)

lemma cniLoop_returns:
  "\<forall>(k, e) \<in> set ifs. IPAddresses e \<noteq> [] \<Longrightarrow>
   \<exists>m'. cniLoop S N m ifs = Inr m'
     \<and> dom m' = dom m \<union> (\<lambda>(k, e). S (IP (hd (IPAddresses e)))) ` set ifs
     \<and> (\<forall>ip v. m' ip = Some v \<longrightarrow>
          m ip = Some v \<or>
          (\<exists>(k, e) \<in> set ifs. ip = S (IP (hd (IPAddresses e)))
             \<and> v = N '''' (PodEndpointId e) (ep_PodName e) (ep_PodNamespace e)))"
proof (induction S N m ifs rule: cniLoop.induct)
  case (1 S N m)
  then show ?case by simp
next
  case (2 S N m k endpoint rest)
  then obtain a as where a: "IPAddresses endpoint = a # as"
    by (cases "IPAddresses endpoint") auto
  let ?m = "m(S (IP a) \<mapsto>
              N '''' (PodEndpointId endpoint) (ep_PodName endpoint) (ep_PodNamespace endpoint))"
  from 2(2) have "\<forall>(k, e) \<in> set rest. IPAddresses e \<noteq> []" by simp
  from 2(1)[OF a this] obtain m' where
    m': "cniLoop S N ?m rest = Inr m'"
    "dom m' = dom ?m \<union> (\<lambda>(k, e). S (IP (hd (IPAddresses e)))) ` set rest"
    "\<forall>ip v. m' ip = Some v \<longrightarrow>
          ?m ip = Some v \<or>
          (\<exists>(k, e) \<in> set rest. ip = S (IP (hd (IPAddresses e)))
             \<and> v = N '''' (PodEndpointId e) (ep_PodName e) (ep_PodNamespace e))"
    by blast
  have r1: "cniLoop S N m ((k, endpoint) # rest) = Inr m'"
    using a m'(1) by simp
  have r2: "dom m' = dom m \<union> (\<lambda>(k, e). S (IP (hd (IPAddresses e)))) ` set ((k, endpoint) # rest)"
    using a m'(2) by auto
  have r3: "\<forall>ip v. m' ip = Some v \<longrightarrow>
          m ip = Some v \<or>
          (\<exists>(k, e) \<in> set ((k, endpoint) # rest). ip = S (IP (hd (IPAddresses e)))
             \<and> v = N '''' (PodEndpointId e) (ep_PodName e) (ep_PodNamespace e))"
  proof (intro allI impI)
    fix ip v assume "m' ip = Some v"
    with m'(3) consider (new) "?m ip = Some v" |
       (later) "\<exists>(k, e) \<in> set rest. ip = S (IP (hd (IPAddresses e)))
             \<and> v = N '''' (PodEndpointId e) (ep_PodName e) (ep_PodNamespace e)" by blast
    then show "m ip = Some v \<or>
          (\<exists>(k, e) \<in> set ((k, endpoint) # rest). ip = S (IP (hd (IPAddresses e)))
             \<and> v = N '''' (PodEndpointId e) (ep_PodName e) (ep_PodNamespace e))"
    proof cases
      case new
      then show ?thesis using a by (auto split: if_splits)
    next
      case later
      then show ?thesis by auto
    qed
  qed
  from r1 r2 r3 show ?case by blast
qed

text \<open>
  C10. For a CNI state \<open>st\<close>, \<^verbatim>\<open>cniStateToPodInfoByIP\<close> returns a map if and only if every
  container interface of \<open>st\<close> has at least one IP address. Under that condition the keys
  of the map are exactly the string forms of the first IP addresses of the interfaces, and
  every entry is the pod info built from an interface with that first address. If some
  interface has an empty \<^verbatim>\<open>IPAddresses\<close>, the read of \<^verbatim>\<open>IPAddresses[0]\<close> is out of range and
  the function panics.
\<close>

theorem cniStateToPodInfoByIP_total_iff:
  "((\<exists>m. cniStateToPodInfoByIP S N (Some st) = Inr m)
      \<longleftrightarrow> (\<forall>(k, e) \<in> set (ContainerInterfaces st). IPAddresses e \<noteq> []))
   \<and> ((\<forall>(k, e) \<in> set (ContainerInterfaces st). IPAddresses e \<noteq> []) \<longrightarrow>
        (\<exists>m. cniStateToPodInfoByIP S N (Some st) = Inr m
           \<and> dom m = (\<lambda>(k, e). S (IP (hd (IPAddresses e)))) ` set (ContainerInterfaces st)
           \<and> (\<forall>ip v. m ip = Some v \<longrightarrow>
                (\<exists>(k, e) \<in> set (ContainerInterfaces st). ip = S (IP (hd (IPAddresses e)))
                   \<and> v = N '''' (PodEndpointId e) (ep_PodName e) (ep_PodNamespace e)))))
   \<and> ((\<exists>(k, e) \<in> set (ContainerInterfaces st). IPAddresses e = []) \<longrightarrow>
        cniStateToPodInfoByIP S N (Some st) = Inl IndexOutOfRange)"
proof -
  let ?ifs = "ContainerInterfaces st"
  have p: "(\<exists>(k, e) \<in> set ?ifs. IPAddresses e = []) \<longrightarrow>
        cniStateToPodInfoByIP S N (Some st) = Inl IndexOutOfRange"
    by (simp add: cniStateToPodInfoByIP_def cniLoop_panics)
  have r: "(\<forall>(k, e) \<in> set ?ifs. IPAddresses e \<noteq> []) \<longrightarrow>
        (\<exists>m. cniStateToPodInfoByIP S N (Some st) = Inr m
           \<and> dom m = (\<lambda>(k, e). S (IP (hd (IPAddresses e)))) ` set ?ifs
           \<and> (\<forall>ip v. m ip = Some v \<longrightarrow>
                (\<exists>(k, e) \<in> set ?ifs. ip = S (IP (hd (IPAddresses e)))
                   \<and> v = N '''' (PodEndpointId e) (ep_PodName e) (ep_PodNamespace e))))"
  proof
    assume "\<forall>(k, e) \<in> set ?ifs. IPAddresses e \<noteq> []"
    from cniLoop_returns[OF this, of S N Map.empty]
    show "\<exists>m. cniStateToPodInfoByIP S N (Some st) = Inr m
           \<and> dom m = (\<lambda>(k, e). S (IP (hd (IPAddresses e)))) ` set ?ifs
           \<and> (\<forall>ip v. m ip = Some v \<longrightarrow>
                (\<exists>(k, e) \<in> set ?ifs. ip = S (IP (hd (IPAddresses e)))
                   \<and> v = N '''' (PodEndpointId e) (ep_PodName e) (ep_PodNamespace e)))"
      by (simp add: cniStateToPodInfoByIP_def)
  qed
  have t: "(\<exists>m. cniStateToPodInfoByIP S N (Some st) = Inr m)
      \<longleftrightarrow> (\<forall>(k, e) \<in> set ?ifs. IPAddresses e \<noteq> [])"
  proof
    assume "\<exists>m. cniStateToPodInfoByIP S N (Some st) = Inr m"
    with p show "\<forall>(k, e) \<in> set ?ifs. IPAddresses e \<noteq> []" by fastforce
  next
    assume "\<forall>(k, e) \<in> set ?ifs. IPAddresses e \<noteq> []"
    with r show "\<exists>m. cniStateToPodInfoByIP S N (Some st) = Inr m" by blast
  qed
  from p r t show ?thesis by blast
qed

text \<open>One endpoint with an address gives one entry; an endpoint without address panics.\<close>

theorem cniStateToPodInfoByIP_total_iff_witness:
  "(\<exists>m. cniStateToPodInfoByIP exampleIPString examplePodInfo (Some exampleState) = Inr m
         \<and> dom m = {''10.244.1.2''})
   \<and> (\<exists>(k, e) \<in> set (ContainerInterfaces noAddressState). IPAddresses e = [])
   \<and> cniStateToPodInfoByIP exampleIPString examplePodInfo (Some noAddressState)
       = Inl IndexOutOfRange"
proof -
  have h1: "\<forall>(k, e) \<in> set (ContainerInterfaces exampleState). IPAddresses e \<noteq> []"
    by (simp add: exampleState_def)
  have h2: "\<exists>(k, e) \<in> set (ContainerInterfaces noAddressState). IPAddresses e = []"
    by (simp add: noAddressState_def)
  have k: "(\<lambda>(k, e). exampleIPString (IP (hd (IPAddresses e)))) `
             set (ContainerInterfaces exampleState) = {''10.244.1.2''}"
    by (simp add: exampleState_def exampleIPString_def)
  note t1 = cniStateToPodInfoByIP_total_iff [of exampleIPString examplePodInfo exampleState]
  from t1
  have "(\<forall>(k, e) \<in> set (ContainerInterfaces exampleState). IPAddresses e \<noteq> []) \<longrightarrow>
        (\<exists>m. cniStateToPodInfoByIP exampleIPString examplePodInfo (Some exampleState) = Inr m
           \<and> dom m = (\<lambda>(k, e). exampleIPString (IP (hd (IPAddresses e)))) `
                       set (ContainerInterfaces exampleState)
           \<and> (\<forall>ip v. m ip = Some v \<longrightarrow>
                (\<exists>(k, e) \<in> set (ContainerInterfaces exampleState).
                   ip = exampleIPString (IP (hd (IPAddresses e)))
                   \<and> v = examplePodInfo '''' (PodEndpointId e) (ep_PodName e)
                           (ep_PodNamespace e))))"
    by (rule conjunct1 [OF conjunct2])
  from mp [OF this h1] obtain m where
    "cniStateToPodInfoByIP exampleIPString examplePodInfo (Some exampleState) = Inr m"
    "dom m = (\<lambda>(k, e). exampleIPString (IP (hd (IPAddresses e)))) `
               set (ContainerInterfaces exampleState)"
    by (elim exE conjE)
  then have r: "\<exists>m. cniStateToPodInfoByIP exampleIPString examplePodInfo (Some exampleState) = Inr m
         \<and> dom m = {''10.244.1.2''}"
    unfolding k by (intro exI conjI)
  note t2 = cniStateToPodInfoByIP_total_iff [of exampleIPString examplePodInfo noAddressState]
  from t2
  have "(\<exists>(k, e) \<in> set (ContainerInterfaces noAddressState). IPAddresses e = []) \<longrightarrow>
        cniStateToPodInfoByIP exampleIPString examplePodInfo (Some noAddressState)
          = Inl IndexOutOfRange"
    by (rule conjunct2 [OF conjunct2])
  from this h2
  have p: "cniStateToPodInfoByIP exampleIPString examplePodInfo (Some noAddressState)
          = Inl IndexOutOfRange"
    by (rule mp)
  from r h2 p show ?thesis by (intro conjI)
qed

section \<open>Properties of the error classification\<close>

lemma causesLoop_eq:
  "causesLoop IsNotFound err nd cs =
     (nd \<or> (IsNotFound err \<and> (\<exists>c \<in> set cs. cause_Type c = CauseTypeUnexpectedServerResponse)))"
  by (induction cs) auto

text \<open>
  What \<^verbatim>\<open>isNotDefined(err)\<close> returns: true exactly when \<open>err\<close> is a status error whose
  details hold a cause of type \<^verbatim>\<open>CauseTypeUnexpectedServerResponse\<close> and for which
  \<^verbatim>\<open>apierrors.IsNotFound\<close> holds; false for the nil error, for an error that is not a status
  error, and for a status error whose details are present and hold no such cause.
\<close>

lemma isNotDefined_iff:
  "(isNotDefined IsNotFound err = Inr True \<longleftrightarrow>
      (\<exists>s d. err = Some (StatusError s) \<and> Details s = Some d
             \<and> (\<exists>c \<in> set (Causes d). cause_Type c = CauseTypeUnexpectedServerResponse)
             \<and> IsNotFound err))
   \<and> isNotDefined IsNotFound None = Inr False
   \<and> isNotDefined IsNotFound (Some (OtherError m)) = Inr False
   \<and> (Details g = Some gd
        \<and> (\<forall>c \<in> set (Causes gd). cause_Type c \<noteq> CauseTypeUnexpectedServerResponse)
      \<longrightarrow> isNotDefined IsNotFound (Some (StatusError g)) = Inr False)"
  by (auto simp: isNotDefined_def causesLoop_eq split: option.splits error.splits)

lemma isNotDefined_nil_Details:
  "Details s = None \<Longrightarrow> isNotDefined IsNotFound (Some (StatusError s)) = Inl NilPointerDereference"
  by (simp add: isNotDefined_def)

lemma isNotDefined_examples:
  "isNotDefined apierrors_IsNotFound (Some notDefinedError) = Inr True"
  "isNotDefined apierrors_IsNotFound (Some notFoundError) = Inr False"
  "isNotDefined apierrors_IsNotFound (Some refusedError) = Inr False"
  "isNotDefined apierrors_IsNotFound None = Inr False"
  by (simp_all add: isNotDefined_def notDefinedError_def notFoundError_def refusedError_def)

text \<open>
  C8. The claim has \<^verbatim>\<open>isNotDefined\<close> return false for a generic not-found error without an
  unexpected-server-response cause. \<open>bareNotFoundError\<close> is such an error: a status error
  that is not found and carries no cause, its \<^verbatim>\<open>Details\<close> being nil. \<^verbatim>\<open>isNotDefined\<close> reads
  \<^verbatim>\<open>statusError.ErrStatus.Details.Causes\<close> without a nil check and panics instead of
  returning false; so it does for the unauthorized status, which has no details either.
\<close>

theorem isNotDefined_nil_details_panics:
  "apierrors_IsNotFound (Some bareNotFoundError)
   \<and> isNotDefined apierrors_IsNotFound (Some bareNotFoundError) = Inl NilPointerDereference
   \<and> isNotDefined apierrors_IsNotFound (Some unauthorizedError) = Inl NilPointerDereference"
  by (simp add: bareNotFoundError_def unauthorizedError_def isNotDefined_def)

section \<open>Properties of the cold start\<close>

lemma getNodeNetConfigDirect_error:
  "directCRDClient_Get c name ns crdTypeName = (x, Some err) \<Longrightarrow>
   getNodeNetConfigDirect c name ns = ([EvCRDGet name ns crdTypeName], (None, Some err))"
  by (simp add: getNodeNetConfigDirect_def)

lemma getNodeNetConfigDirect_ok:
  "directCRDClient_Get c name ns crdTypeName = (x, None) \<Longrightarrow>
   getNodeNetConfigDirect c name ns = ([EvCRDGet name ns crdTypeName], (x, None))"
  by (simp add: getNodeNetConfigDirect_def)

text \<open>
  Whatever the error of the direct read is, \<^verbatim>\<open>getNodeNetConfigDirect\<close> returns a nil
  resource with it. Unless the error classifies as not defined, \<^verbatim>\<open>initCNS\<close> then leaves
  through the check \<^verbatim>\<open>nodeNetConfig == nil\<close> and returns nil: the two branches behind that
  check are never reached, and \<^verbatim>\<open>InitRequestController\<close> sets \<^verbatim>\<open>initialized\<close>.
\<close>

lemma initCNS_read_error:
  assumes "directCRDClient_Get c (nodeName rc) k8sNamespace crdTypeName = (x, Some err)"
    and "isNotDefined IsNotFound (Some err) = Inr False"
  shows "initCNS IsNotFound c rc
           = ([EvCRDGet (nodeName rc) k8sNamespace crdTypeName], Return None)"
  using assms by (simp add: initCNS_def getNodeNetConfigDirect_error)

lemma InitRequestController_read_error:
  assumes "directCRDClient_Get c (nodeName rc) k8sNamespace crdTypeName = (x, Some err)"
    and "isNotDefined IsNotFound (Some err) = Inr False"
  shows "InitRequestController IsNotFound c rc
           = ([EvCRDGet (nodeName rc) k8sNamespace crdTypeName, EvUnlock (Started rc)],
              Return None, rc\<lparr>initialized := True\<rparr>)"
  using initCNS_read_error [OF assms] by (simp add: InitRequestController_def)

text \<open>
  C2. The direct read fails with the plain not-found error \<open>notFoundError\<close> (it is not found,
  and not classified as not defined). The claim, and the comment and the branch of
  \<^verbatim>\<open>initCNS\<close> behind the check \<^verbatim>\<open>nodeNetConfig == nil\<close>, have \<^verbatim>\<open>ReconcileNCState\<close> called with
  a nil request and a nil pod map. \<^verbatim>\<open>initCNS\<close> returns nil at that check instead: its trace
  is the read alone, and it holds no call of \<^verbatim>\<open>ReconcileNCState\<close>.
\<close>

theorem initCNS_not_found_no_reconcile:
  "directCRDClient_Get
      (exampleCollaborators\<lparr>directCRDClient_Get := (\<lambda>name namespace kind. (None, Some notFoundError))\<rparr>)
      (nodeName exampleController) k8sNamespace crdTypeName = (None, Some notFoundError)
   \<and> apierrors_IsNotFound (Some notFoundError)
   \<and> isNotDefined apierrors_IsNotFound (Some notFoundError) = Inr False
   \<and> initCNS apierrors_IsNotFound
       (exampleCollaborators\<lparr>directCRDClient_Get := (\<lambda>name namespace kind. (None, Some notFoundError))\<rparr>)
       exampleController
     = ([EvCRDGet ''node-1'' ''kube-system'' ''nodenetworkconfigs''], Return None)
   \<and> reconcileCalls (fst (initCNS apierrors_IsNotFound
       (exampleCollaborators\<lparr>directCRDClient_Get := (\<lambda>name namespace kind. (None, Some notFoundError))\<rparr>)
       exampleController)) = []"
  by (simp add: initCNS_def getNodeNetConfigDirect_def notFoundError_def isNotDefined_def
      reconcileCalls_def exampleCollaborators_def exampleController_def k8sNamespace_def
      crdTypeName_def)

text \<open>
  C3. The direct read fails with the transport error \<open>refusedError\<close>, which is neither not
  found nor classified as not defined. \<^verbatim>\<open>InitRequestController\<close> returns nil instead of the
  error and sets \<^verbatim>\<open>initialized\<close>; a following \<^verbatim>\<open>StartRequestController\<close> starts the manager.
\<close>

theorem InitRequestController_swallows_read_error:
  "\<not> apierrors_IsNotFound (Some refusedError)
   \<and> isNotDefined apierrors_IsNotFound (Some refusedError) = Inr False
   \<and> InitRequestController apierrors_IsNotFound
       (exampleCollaborators\<lparr>directCRDClient_Get := (\<lambda>name namespace kind. (None, Some refusedError))\<rparr>)
       exampleController
     = ([EvCRDGet ''node-1'' ''kube-system'' ''nodenetworkconfigs'', EvUnlock False],
        Return None, exampleController\<lparr>initialized := True\<rparr>)
   \<and> fst (StartRequestController apierrors_IsNotFound exampleCollaborators
            (exampleController\<lparr>initialized := True\<rparr>))
     = [EvUnlock True, EvMgrStart]"
  by (simp add: InitRequestController_def initCNS_def getNodeNetConfigDirect_def refusedError_def
      isNotDefined_def exampleCollaborators_def exampleController_def k8sNamespace_def
      crdTypeName_def StartRequestController_def)

text \<open>
  C9. If the direct read succeeds and the status of the resource has no network container,
  the trace of \<^verbatim>\<open>initCNS\<close> is the read followed by one call of \<^verbatim>\<open>ReconcileNCState\<close> with a nil
  request, a nil pod map and the scaler and spec of the resource; \<^verbatim>\<open>initCNS\<close> returns what
  that call returns. The pods are not listed and the status is not translated.
\<close>

theorem initCNS_zero_containers:
  assumes "directCRDClient_Get c (nodeName rc) k8sNamespace crdTypeName = (Some n, None)"
    and "NetworkContainers (Status n) = []"
  shows "initCNS IsNotFound c rc =
     ([EvCRDGet (nodeName rc) k8sNamespace crdTypeName,
       EvReconcile None None (Scaler (Status n)) (Spec n)],
      Return (CNSClient_ReconcileNCState c None None (Scaler (Status n)) (Spec n)))"
  using assms by (simp add: initCNS_def getNodeNetConfigDirect_ok)

theorem initCNS_zero_containers_witness:
  "directCRDClient_Get
      (exampleCollaborators\<lparr>directCRDClient_Get := (\<lambda>name namespace kind. (Some emptyNNC, None))\<rparr>)
      (nodeName exampleController) k8sNamespace crdTypeName = (Some emptyNNC, None)
   \<and> NetworkContainers (Status emptyNNC) = []
   \<and> initCNS apierrors_IsNotFound
       (exampleCollaborators\<lparr>directCRDClient_Get := (\<lambda>name namespace kind. (Some emptyNNC, None))\<rparr>)
       exampleController
     = ([EvCRDGet ''node-1'' ''kube-system'' ''nodenetworkconfigs'', EvReconcile None None 8 16],
        Return None)"
  using initCNS_zero_containers
    [where c = "exampleCollaborators\<lparr>directCRDClient_Get :=
                  (\<lambda>name namespace kind. (Some emptyNNC, None))\<rparr>"
       and rc = exampleController and n = emptyNNC and IsNotFound = apierrors_IsNotFound]
  by (simp add: exampleCollaborators_def exampleController_def emptyNNC_def k8sNamespace_def
        crdTypeName_def)

lemma dom_podLoop:
  "dom (podLoop m pods) = dom m \<union> PodIP ` {p \<in> set pods. \<not> HostNetwork p}"
  by (induction pods arbitrary: m) auto

lemma podLoop_value:
  "podLoop m pods ip = Some v \<Longrightarrow>
     m ip = Some v \<or> (\<exists>p \<in> set pods. \<not> HostNetwork p \<and> PodIP p = ip
        \<and> v = \<lparr>PodName = pod_Name p, PodNamespace = pod_Namespace p\<rparr>)"
proof (induction pods arbitrary: m)
  case Nil
  then show ?case by simp
next
  case (Cons a pods)
  show ?case
  proof (cases "HostNetwork a")
    case True
    with Cons.prems have "podLoop m pods ip = Some v" by simp
    from Cons.IH[OF this] show ?thesis by auto
  next
    case False
    with Cons.prems
    have "podLoop (m(PodIP a \<mapsto> \<lparr>PodName = pod_Name a, PodNamespace = pod_Namespace a\<rparr>))
            pods ip = Some v"
      by simp
    from Cons.IH[OF this] show ?thesis using False by (auto split: if_splits)
  qed
qed

lemma podLoop_other:
  "ip \<notin> PodIP ` {p \<in> set pods. \<not> HostNetwork p} \<Longrightarrow> podLoop m pods ip = m ip"
proof (induction pods arbitrary: m)
  case Nil
  then show ?case by simp
next
  case (Cons a pods)
  from Cons.prems have r: "ip \<notin> PodIP ` {p \<in> set pods. \<not> HostNetwork p}" by auto
  show ?case
  proof (cases "HostNetwork a")
    case True
    then show ?thesis using Cons.IH[OF r] by simp
  next
    case False
    with Cons.prems have "ip \<noteq> PodIP a" by auto
    then show ?thesis using False Cons.IH[OF r] by simp
  qed
qed

lemma podLoop_own:
  "distinct (map PodIP (filter (\<lambda>p. \<not> HostNetwork p) pods)) \<Longrightarrow> p \<in> set pods \<Longrightarrow>
   \<not> HostNetwork p \<Longrightarrow>
   podLoop m pods (PodIP p) = Some \<lparr>PodName = pod_Name p, PodNamespace = pod_Namespace p\<rparr>"
proof (induction pods arbitrary: m)
  case Nil
  then show ?case by simp
next
  case (Cons a pods)
  show ?case
  proof (cases "p = a")
    case True
    with Cons.prems have "PodIP a \<notin> PodIP ` {q \<in> set pods. \<not> HostNetwork q}" by auto
    then show ?thesis using True Cons.prems(3) by (simp add: podLoop_other)
  next
    case False
    with Cons.prems have "p \<in> set pods" by simp
    moreover from Cons.prems have "distinct (map PodIP (filter (\<lambda>p. \<not> HostNetwork p) pods))"
      by (simp split: if_splits)
    ultimately show ?thesis using Cons.IH Cons.prems(3) by simp
  qed
qed

lemma mapEntries_podInfoByIPOf: "mapEntries (podInfoByIPOf pods) = podLoop Map.empty pods"
  by (cases pods) (simp_all add: mapEntries_def podInfoByIPOf_def)

lemma podLoop_last:
  "podLoop m pods ip =
     (if filter (\<lambda>p. \<not> HostNetwork p \<and> PodIP p = ip) pods = [] then m ip
      else Some \<lparr>PodName = pod_Name (last (filter (\<lambda>p. \<not> HostNetwork p \<and> PodIP p = ip) pods)),
                  PodNamespace =
                    pod_Namespace (last (filter (\<lambda>p. \<not> HostNetwork p \<and> PodIP p = ip) pods))\<rparr>)"
proof (induction pods arbitrary: m)
  case Nil
  then show ?case by simp
next
  case (Cons a pods)
  let ?f = "filter (\<lambda>p. \<not> HostNetwork p \<and> PodIP p = ip) pods"
  show ?case
  proof (cases "\<not> HostNetwork a \<and> PodIP a = ip")
    case True
    then have s: "podLoop m (a # pods) ip
        = podLoop (m(ip \<mapsto> \<lparr>PodName = pod_Name a, PodNamespace = pod_Namespace a\<rparr>)) pods ip"
      by auto
    from True have f: "filter (\<lambda>p. \<not> HostNetwork p \<and> PodIP p = ip) (a # pods) = a # ?f"
      by simp
    show ?thesis
      unfolding s f Cons.IH by simp
  next
    case False
    then have f: "filter (\<lambda>p. \<not> HostNetwork p \<and> PodIP p = ip) (a # pods) = ?f"
      by auto
    show ?thesis
    proof (cases "HostNetwork a")
      case True
      then have "podLoop m (a # pods) ip = podLoop m pods ip" by simp
      then show ?thesis unfolding f Cons.IH by simp
    next
      case h: False
      with False have ne: "PodIP a \<noteq> ip" by simp
      from h have "podLoop m (a # pods) ip
        = podLoop (m(PodIP a \<mapsto> \<lparr>PodName = pod_Name a, PodNamespace = pod_Namespace a\<rparr>)) pods ip"
        by simp
      then show ?thesis unfolding f Cons.IH using ne by simp
    qed
  qed
qed

text \<open>
  C7, as claimed: the map holds an entry, with the pod's name and namespace, for every pod
  whose \<^verbatim>\<open>HostNetwork\<close> flag is false. The two pods of \<open>pendingPods\<close> are off the host
  network and share the empty \<^verbatim>\<open>PodIP\<close>; the assignment \<^verbatim>\<open>podInfoByIP[pod.Status.PodIP] = podInfo\<close>
  of the second overwrites the entry of the first. The map \<^verbatim>\<open>initCNS\<close> passes to
  \<^verbatim>\<open>ReconcileNCState\<close> has the one entry of \<^verbatim>\<open>job-b\<close> and none with the name of \<^verbatim>\<open>job-a\<close>.
\<close>

theorem podInfoByIP_shared_IP_counterexample:
  "reconcileCalls (fst (initCNS apierrors_IsNotFound
       (exampleCollaborators\<lparr>directAPIClient_ListPods :=
          (\<lambda>namespace node. (Some \<lparr>Items = pendingPods\<rparr>, None))\<rparr>)
       exampleController))
     = [EvReconcile (Some [''nc-1'']) (podInfoByIPOf pendingPods) 8 16]
   \<and> \<lparr>pod_Name = ''job-a'', pod_Namespace = ''default'', HostNetwork = False, PodIP = ''''\<rparr>
       \<in> set pendingPods
   \<and> dom (mapEntries (podInfoByIPOf pendingPods)) = {''''}
   \<and> mapEntries (podInfoByIPOf pendingPods) ''''
       = Some \<lparr>PodName = ''job-b'', PodNamespace = ''default''\<rparr>
   \<and> mapEntries (podInfoByIPOf pendingPods) ''''
       \<noteq> Some \<lparr>PodName = ''job-a'', PodNamespace = ''default''\<rparr>"
proof -
  have 1: "reconcileCalls (fst (initCNS apierrors_IsNotFound
       (exampleCollaborators\<lparr>directAPIClient_ListPods :=
          (\<lambda>namespace node. (Some \<lparr>Items = pendingPods\<rparr>, None))\<rparr>)
       exampleController))
     = [EvReconcile (Some [''nc-1'']) (podInfoByIPOf pendingPods) 8 16]"
    by (simp add: initCNS_def getNodeNetConfigDirect_def getAllPods_def reconcileCalls_def
        exampleCollaborators_def exampleNNC_def)
  have 2: "\<lparr>pod_Name = ''job-a'', pod_Namespace = ''default'', HostNetwork = False, PodIP = ''''\<rparr>
       \<in> set pendingPods"
    by (simp add: pendingPods_def)
  have 3: "dom (mapEntries (podInfoByIPOf pendingPods)) = {''''}"
    by (simp add: mapEntries_def podInfoByIPOf_def pendingPods_def)
  have 4: "mapEntries (podInfoByIPOf pendingPods) ''''
       = Some \<lparr>PodName = ''job-b'', PodNamespace = ''default''\<rparr>"
    by (simp add: mapEntries_def podInfoByIPOf_def pendingPods_def)
  then have 5: "mapEntries (podInfoByIPOf pendingPods) ''''
       \<noteq> Some \<lparr>PodName = ''job-a'', PodNamespace = ''default''\<rparr>"
    by simp
  from 1 2 3 4 5 show ?thesis by (intro conjI)
qed

text \<open>
  C7, amended. When the read, the translation and the pod listing of the cold start
  succeed, \<^verbatim>\<open>initCNS\<close> calls \<^verbatim>\<open>ReconcileNCState\<close> once, with a pod-IP map of which: the keys
  are exactly the IPs of the listed pods whose \<^verbatim>\<open>HostNetwork\<close> flag is false; every entry
  holds the name and namespace of such a pod with that IP, so no entry comes from a
  host-network pod; the entry of an IP is that of the last such pod in the list with that
  IP; and when the IPs of the pods off the host network are distinct, each of them has its
  own entry.
\<close>

theorem initCNS_podInfoByIP:
  assumes "directCRDClient_Get c (nodeName rc) k8sNamespace crdTypeName = (Some n, None)"
    and "NetworkContainers (Status n) \<noteq> []"
    and "CRDStatusToNCRequest c (Status n) = (req, None)"
    and "directAPIClient_ListPods c allNamespaces (nodeName rc) = (Some ps, None)"
  shows "\<exists>m. reconcileCalls (fst (initCNS IsNotFound c rc))
               = [EvReconcile (Some req) m (Scaler (Status n)) (Spec n)]
     \<and> dom (mapEntries m) = PodIP ` {p \<in> set (Items ps). \<not> HostNetwork p}
     \<and> (\<forall>ip v. mapEntries m ip = Some v \<longrightarrow>
           (\<exists>p \<in> set (Items ps). \<not> HostNetwork p \<and> PodIP p = ip
              \<and> v = \<lparr>PodName = pod_Name p, PodNamespace = pod_Namespace p\<rparr>))
     \<and> (\<forall>ip. mapEntries m ip =
           (if filter (\<lambda>p. \<not> HostNetwork p \<and> PodIP p = ip) (Items ps) = [] then None
            else Some \<lparr>PodName =
                         pod_Name (last (filter (\<lambda>p. \<not> HostNetwork p \<and> PodIP p = ip) (Items ps))),
                       PodNamespace =
                         pod_Namespace
                           (last (filter (\<lambda>p. \<not> HostNetwork p \<and> PodIP p = ip) (Items ps)))\<rparr>))
     \<and> (distinct (map PodIP (filter (\<lambda>p. \<not> HostNetwork p) (Items ps))) \<longrightarrow>
          (\<forall>p \<in> set (Items ps). \<not> HostNetwork p \<longrightarrow>
             mapEntries m (PodIP p)
               = Some \<lparr>PodName = pod_Name p, PodNamespace = pod_Namespace p\<rparr>))"
proof -
  let ?m = "podInfoByIPOf (Items ps)"
  have e: "mapEntries ?m = podLoop Map.empty (Items ps)"
    by (rule mapEntries_podInfoByIPOf)
  have 0: "reconcileCalls (fst (initCNS IsNotFound c rc))
               = [EvReconcile (Some req) ?m (Scaler (Status n)) (Spec n)]"
    using assms
    by (simp add: initCNS_def getNodeNetConfigDirect_ok getAllPods_def reconcileCalls_def)
  have 1: "dom (mapEntries ?m) = PodIP ` {p \<in> set (Items ps). \<not> HostNetwork p}"
    by (simp add: e dom_podLoop)
  have 2: "\<forall>ip v. mapEntries ?m ip = Some v \<longrightarrow>
           (\<exists>p \<in> set (Items ps). \<not> HostNetwork p \<and> PodIP p = ip
              \<and> v = \<lparr>PodName = pod_Name p, PodNamespace = pod_Namespace p\<rparr>)"
    using podLoop_value [of Map.empty "Items ps"] by (simp add: e)
  have 3: "\<forall>ip. mapEntries ?m ip =
           (if filter (\<lambda>p. \<not> HostNetwork p \<and> PodIP p = ip) (Items ps) = [] then None
            else Some \<lparr>PodName =
                         pod_Name (last (filter (\<lambda>p. \<not> HostNetwork p \<and> PodIP p = ip) (Items ps))),
                       PodNamespace =
                         pod_Namespace
                           (last (filter (\<lambda>p. \<not> HostNetwork p \<and> PodIP p = ip) (Items ps)))\<rparr>)"
    unfolding e by (intro allI, subst podLoop_last) simp
  have 4: "distinct (map PodIP (filter (\<lambda>p. \<not> HostNetwork p) (Items ps))) \<longrightarrow>
          (\<forall>p \<in> set (Items ps). \<not> HostNetwork p \<longrightarrow>
             mapEntries ?m (PodIP p)
               = Some \<lparr>PodName = pod_Name p, PodNamespace = pod_Namespace p\<rparr>)"
    by (simp add: e podLoop_own)
  from 0 1 2 3 4 show ?thesis by (intro exI [of _ ?m] conjI)
qed

text \<open>The host-network pod at 10.0.0.5 is left out, the pod at 10.244.1.2 is in the map.\<close>

theorem initCNS_podInfoByIP_witness:
  "\<exists>m. reconcileCalls (fst (initCNS apierrors_IsNotFound exampleCollaborators exampleController))
          = [EvReconcile (Some [''nc-1'']) m 8 16]
     \<and> dom (mapEntries m) = {''10.244.1.2''}
     \<and> mapEntries m ''10.0.0.5'' = None
     \<and> mapEntries m ''10.244.1.2'' = Some \<lparr>PodName = ''web'', PodNamespace = ''default''\<rparr>"
proof -
  let ?ps = "\<lparr>Items = examplePods\<rparr>"
  let ?web = "\<lparr>pod_Name = ''web'', pod_Namespace = ''default'', HostNetwork = False,
               PodIP = ''10.244.1.2''\<rparr>"
  have g: "directCRDClient_Get exampleCollaborators (nodeName exampleController) k8sNamespace
             crdTypeName = (Some exampleNNC, None)"
    by (simp add: exampleCollaborators_def)
  have nc: "NetworkContainers (Status exampleNNC) \<noteq> []"
    by (simp add: exampleNNC_def)
  have tr: "CRDStatusToNCRequest exampleCollaborators (Status exampleNNC) = ([''nc-1''], None)"
    by (simp add: exampleCollaborators_def exampleNNC_def)
  have lp: "directAPIClient_ListPods exampleCollaborators allNamespaces (nodeName exampleController)
              = (Some ?ps, None)"
    by (simp add: exampleCollaborators_def)
  have d: "distinct (map PodIP (filter (\<lambda>p. \<not> HostNetwork p) (Items ?ps)))"
    by (simp add: examplePods_def)
  have "{p \<in> set (Items ?ps). \<not> HostNetwork p} = {?web}"
    by (auto simp: examplePods_def)
  then have i: "PodIP ` {p \<in> set (Items ?ps). \<not> HostNetwork p} = {''10.244.1.2''}"
    by simp
  have w: "?web \<in> set (Items ?ps)"
    by (simp add: examplePods_def)
  from initCNS_podInfoByIP [where IsNotFound = apierrors_IsNotFound, OF g nc tr lp]
  obtain m where
    r: "reconcileCalls (fst (initCNS apierrors_IsNotFound exampleCollaborators exampleController))
          = [EvReconcile (Some [''nc-1'']) m (Scaler (Status exampleNNC)) (Spec exampleNNC)]"
    and dm: "dom (mapEntries m) = PodIP ` {p \<in> set (Items ?ps). \<not> HostNetwork p}"
    and o: "distinct (map PodIP (filter (\<lambda>p. \<not> HostNetwork p) (Items ?ps))) \<longrightarrow>
          (\<forall>p \<in> set (Items ?ps). \<not> HostNetwork p \<longrightarrow>
             mapEntries m (PodIP p)
               = Some \<lparr>PodName = pod_Name p, PodNamespace = pod_Namespace p\<rparr>)"
    by (elim exE conjE)
  from r have 1: "reconcileCalls (fst (initCNS apierrors_IsNotFound exampleCollaborators
                     exampleController)) = [EvReconcile (Some [''nc-1'']) m 8 16]"
    by (simp add: exampleNNC_def)
  from dm have 2: "dom (mapEntries m) = {''10.244.1.2''}"
    by (simp only: i)
  then have "''10.0.0.5'' \<notin> dom (mapEntries m)"
    by simp
  then have 3: "mapEntries m ''10.0.0.5'' = None"
    by (simp only: domIff not_not)
  from bspec [OF mp [OF o d] w]
  have 4: "mapEntries m ''10.244.1.2'' = Some \<lparr>PodName = ''web'', PodNamespace = ''default''\<rparr>"
    by simp
  from 1 2 3 4 show ?thesis by (intro exI [of _ m] conjI)
qed

section \<open>Properties of the start\<close>

lemma StartRequestController_trace:
  "fst (StartRequestController IsNotFound c rc) =
     (if initialized rc then [EvUnlock True, EvMgrStart] else [EvUnlock (Started rc)])"
  by (simp add: StartRequestController_def Let_def split: option.splits sum.splits bool.splits)

lemma StartMultiTenantController_trace:
  "fst (StartMultiTenantController IsNotFound c mtc) = [EvUnlock True, EvMgrStart]"
  by (simp add: StartMultiTenantController_def Let_def split: option.splits sum.splits bool.splits)

lemma InitRequestController_success:
  "InitRequestController IsNotFound c rc = (t, Return None, rc') \<Longrightarrow> initialized rc'"
  by (auto simp: InitRequestController_def split: prod.splits outcome.splits option.splits)

text \<open>
  C4. Called while \<^verbatim>\<open>initialized\<close> is false, \<^verbatim>\<open>StartRequestController\<close> returns an error,
  leaves the controller as it is and does not call \<^verbatim>\<open>mgr.Start\<close>. Called while
  \<^verbatim>\<open>initialized\<close> is true, and so on the controller that a successful
  \<^verbatim>\<open>InitRequestController\<close> leaves behind, it calls \<^verbatim>\<open>mgr.Start\<close>.
\<close>

theorem StartRequestController_gate:
  "(\<not> initialized rc \<longrightarrow>
      StartRequestController IsNotFound c rc = ([EvUnlock (Started rc)], Return (Some notInitializedError), rc)
      \<and> EvMgrStart \<notin> set (fst (StartRequestController IsNotFound c rc)))
   \<and> (initialized rc \<longrightarrow> EvMgrStart \<in> set (fst (StartRequestController IsNotFound c rc)))
   \<and> (InitRequestController IsNotFound ci rci = (t, Return None, rc) \<longrightarrow>
        initialized rc \<and> EvMgrStart \<in> set (fst (StartRequestController IsNotFound c rc)))"
proof -
  have 1: "\<not> initialized rc \<longrightarrow>
      StartRequestController IsNotFound c rc = ([EvUnlock (Started rc)], Return (Some notInitializedError), rc)
      \<and> EvMgrStart \<notin> set (fst (StartRequestController IsNotFound c rc))"
    by (simp add: StartRequestController_def)
  have 2: "initialized rc \<longrightarrow> EvMgrStart \<in> set (fst (StartRequestController IsNotFound c rc))"
    by (simp add: StartRequestController_trace)
  have 3: "InitRequestController IsNotFound ci rci = (t, Return None, rc) \<longrightarrow>
        initialized rc \<and> EvMgrStart \<in> set (fst (StartRequestController IsNotFound c rc))"
    using 2 InitRequestController_success by blast
  from 1 2 3 show ?thesis by blast
qed

text \<open>Start before init fails; init on the example node succeeds, and start then runs.\<close>

theorem StartRequestController_gate_witness:
  "\<not> initialized exampleController
   \<and> StartRequestController apierrors_IsNotFound exampleCollaborators exampleController
       = ([EvUnlock False], Return (Some notInitializedError), exampleController)
   \<and> fst (snd (InitRequestController apierrors_IsNotFound exampleCollaborators exampleController)) = Return None
   \<and> initialized (snd (snd (InitRequestController apierrors_IsNotFound exampleCollaborators exampleController)))
   \<and> EvMgrStart \<in> set (fst (StartRequestController apierrors_IsNotFound exampleCollaborators
        (snd (snd (InitRequestController apierrors_IsNotFound exampleCollaborators exampleController)))))"
proof -
  let ?init = "InitRequestController apierrors_IsNotFound exampleCollaborators exampleController"
  have n: "\<not> initialized exampleController"
    by (simp add: exampleController_def)
  have r: "fst (snd ?init) = Return None"
    by (simp add: InitRequestController_def initCNS_def getNodeNetConfigDirect_def getAllPods_def
        exampleCollaborators_def exampleNNC_def)
  then have i: "?init = (fst ?init, Return None, snd (snd ?init))"
    by (cases ?init) simp
  have s: "StartRequestController apierrors_IsNotFound exampleCollaborators exampleController
       = ([EvUnlock False], Return (Some notInitializedError), exampleController)"
    using StartRequestController_gate
      [where IsNotFound = apierrors_IsNotFound and rc = exampleController and c = exampleCollaborators
         and ci = exampleCollaborators and rci = exampleController and t = "[]"] n
    by (simp add: exampleController_def)
  have "initialized (snd (snd ?init))
   \<and> EvMgrStart \<in> set (fst (StartRequestController apierrors_IsNotFound exampleCollaborators (snd (snd ?init))))"
    using StartRequestController_gate
      [where IsNotFound = apierrors_IsNotFound and rc = "snd (snd ?init)" and c = exampleCollaborators
         and ci = exampleCollaborators and rci = exampleController and t = "fst ?init"] i
    by blast
  with n s r show ?thesis by blast
qed

text \<open>
  C5, as claimed: no release of the lock publishes \<^verbatim>\<open>Started = true\<close> before \<^verbatim>\<open>mgr.Start\<close>
  is called. On an initialized controller \<^verbatim>\<open>StartRequestController\<close> sets \<^verbatim>\<open>Started\<close> and
  releases the lock first and calls \<^verbatim>\<open>mgr.Start\<close> afterwards, so the claim fails.
\<close>

theorem Started_before_manager_counterexample:
  "\<not> startedOnlyWhileRunning False
       (fst (StartRequestController apierrors_IsNotFound exampleCollaborators (exampleController\<lparr>initialized := True\<rparr>)))"
  by (simp add: StartRequestController_trace)

text \<open>
  C5, amended. \<^verbatim>\<open>Started\<close> is set before the manager is started, not after: whenever
  \<^verbatim>\<open>StartRequestController\<close> calls \<^verbatim>\<open>mgr.Start\<close>, the last release of the lock has published
  \<^verbatim>\<open>Started = true\<close>. \<^verbatim>\<open>mgr.Start\<close> is called exactly when \<^verbatim>\<open>initialized\<close> holds, and
  \<^verbatim>\<open>Started\<close> is true afterwards exactly when it was true before or \<^verbatim>\<open>initialized\<close> holds:
  the trace is the release of the lock with \<^verbatim>\<open>Started = true\<close> followed by \<^verbatim>\<open>mgr.Start\<close> on an
  initialized controller, and the release of the lock alone otherwise.
  \<^verbatim>\<open>StartMultiTenantController\<close> always releases the lock with \<^verbatim>\<open>Started = true\<close>, then
  calls \<^verbatim>\<open>mgr.Start\<close>, and leaves \<^verbatim>\<open>Started\<close> true.
\<close>

theorem manager_started_after_Started:
  "runOnlyWhenStarted (Started rc) (fst (StartRequestController IsNotFound c rc))
   \<and> (Started (snd (snd (StartRequestController IsNotFound c rc))) \<longleftrightarrow> Started rc \<or> initialized rc)
   \<and> (EvMgrStart \<in> set (fst (StartRequestController IsNotFound c rc)) \<longleftrightarrow> initialized rc)
   \<and> runOnlyWhenStarted (mtc_Started mtc) (fst (StartMultiTenantController IsNotFound c mtc))
   \<and> fst (StartRequestController IsNotFound c rc)
       = (if initialized rc then [EvUnlock True, EvMgrStart] else [EvUnlock (Started rc)])
   \<and> fst (StartMultiTenantController IsNotFound c mtc) = [EvUnlock True, EvMgrStart]
   \<and> mtc_Started (snd (snd (StartMultiTenantController IsNotFound c mtc)))"
proof -
  have 1: "runOnlyWhenStarted (Started rc) (fst (StartRequestController IsNotFound c rc))"
    by (simp add: StartRequestController_trace)
  have 2: "Started (snd (snd (StartRequestController IsNotFound c rc)))
             \<longleftrightarrow> Started rc \<or> initialized rc"
    by (simp add: StartRequestController_def Let_def split: option.splits sum.splits bool.splits)
  have 3: "EvMgrStart \<in> set (fst (StartRequestController IsNotFound c rc)) \<longleftrightarrow> initialized rc"
    by (simp add: StartRequestController_trace)
  have 4: "runOnlyWhenStarted (mtc_Started mtc) (fst (StartMultiTenantController IsNotFound c mtc))"
    by (simp add: StartMultiTenantController_trace)
  have 5: "fst (StartRequestController IsNotFound c rc)
       = (if initialized rc then [EvUnlock True, EvMgrStart] else [EvUnlock (Started rc)])"
    by (rule StartRequestController_trace)
  have 6: "fst (StartMultiTenantController IsNotFound c mtc) = [EvUnlock True, EvMgrStart]"
    by (rule StartMultiTenantController_trace)
  have 7: "mtc_Started (snd (snd (StartMultiTenantController IsNotFound c mtc)))"
    by (simp add: StartMultiTenantController_def Let_def
        split: option.splits sum.splits bool.splits)
  from 1 2 3 4 5 6 7 show ?thesis by (intro conjI)
qed

theorem manager_started_after_Started_witness:
  "runOnlyWhenStarted False
     (fst (StartRequestController apierrors_IsNotFound exampleCollaborators
        (exampleController\<lparr>initialized := True\<rparr>)))
   \<and> Started (snd (snd (StartRequestController apierrors_IsNotFound exampleCollaborators
        (exampleController\<lparr>initialized := True\<rparr>))))
   \<and> fst (StartRequestController apierrors_IsNotFound exampleCollaborators
        (exampleController\<lparr>initialized := True\<rparr>)) = [EvUnlock True, EvMgrStart]
   \<and> fst (StartMultiTenantController apierrors_IsNotFound exampleCollaborators
        \<lparr>mtc_nodeName = ''node-1'', mtc_Started = False\<rparr>) = [EvUnlock True, EvMgrStart]
   \<and> mtc_Started (snd (snd (StartMultiTenantController apierrors_IsNotFound exampleCollaborators
        \<lparr>mtc_nodeName = ''node-1'', mtc_Started = False\<rparr>)))"
  using manager_started_after_Started
    [where IsNotFound = apierrors_IsNotFound
       and rc = "exampleController\<lparr>initialized := True\<rparr>" and c = exampleCollaborators
       and mtc = "\<lparr>mtc_nodeName = ''node-1'', mtc_Started = False\<rparr>"]
  by (simp add: exampleController_def)

end
